theory Spec2Isabelle
  imports Complex_Main
begin

section \<open>Values shared by the modules\<close>

text \<open>
  Instants are milliseconds since the epoch, as \<^verbatim>\<open>Date.now()\<close> returns them. The
  source carries instants inside payloads as ISO-8601 strings made by
  \<^verbatim>\<open>toISOString()\<close> and read back by \<^verbatim>\<open>new Date(...)\<close>; the two are inverse on
  valid dates, so a payload field holding such a string is modelled by the instant it
  denotes. Every function that reads the clock takes the reading as its argument
  \<open>now\<close>; one call observes one reading.
\<close>

type_synonym millis = int

definition DAY_MS :: int where
  "DAY_MS = 24 * 60 * 60 * 1000"

text \<open>
  JavaScript truthiness of a value that is a string, \<^verbatim>\<open>null\<close> or \<^verbatim>\<open>undefined\<close>
  (\<open>None\<close> stands for the last two): only a non-empty string is truthy.
\<close>

fun truthy :: "string option \<Rightarrow> bool" where
  "truthy None = False"
| "truthy (Some s) = (s \<noteq> [])"

text \<open>\<^verbatim>\<open>a || b\<close> with a string default, and with a possibly undefined right operand.\<close>

definition js_or :: "string option \<Rightarrow> string \<Rightarrow> string" where
  "js_or a b = (case a of None \<Rightarrow> b | Some s \<Rightarrow> if s \<noteq> [] then s else b)"

definition js_or_opt :: "string option \<Rightarrow> string option \<Rightarrow> string option" where
  "js_or_opt a b = (if truthy a then a else b)"

section \<open>license.js: the token codec\<close>

datatype error =
    JwtMalformed
  | InvalidSignature
  | TokenExpired
  | WrongType
  | LicenseExpired
  | LicenseNotFound

record trial =
  startedAt :: millis
  durationDays :: int

record license_payload =
  name :: string
  email :: string
  plan :: string
  purchasedAt :: millis
  expiresAt :: "millis option"

text \<open>
  The functions of \<^verbatim>\<open>license.js\<close> delegate signing and verification to the
  \<^verbatim>\<open>jsonwebtoken\<close> library, an external dependency whose code is not part of the
  repository. A compact token is represented by what \<^verbatim>\<open>jwt.verify\<close> decodes from it:
  the claim set, and the secret its HMAC was computed with (the signature check is
  equality of secrets, the usual symbolic idealisation). The \<^verbatim>\<open>type\<close> claim is the
  constructor of \<open>payload\<close>: \<open>TrialClaims\<close> for \<^verbatim>\<open>'trial'\<close>, \<open>LicenseClaims\<close> for
  \<^verbatim>\<open>'license'\<close>, and \<open>OtherClaims\<close> for a token carrying any other tag. The
  registered claims \<^verbatim>\<open>iat\<close> and \<^verbatim>\<open>exp\<close> are in seconds.
\<close>

datatype payload =
    TrialClaims trial
  | LicenseClaims license_payload
  | OtherClaims string

record jwt =
  claims :: payload
  jwt_iat :: int
  jwt_exp :: "int option"
  signedWith :: string

text \<open>
  Modelled from the spec: \<^verbatim>\<open>jwt.sign(payload, secret, {expiresIn})\<close> of the
  \<^verbatim>\<open>jsonwebtoken\<close> library. The specification's codec signs a token carrying a type
  tag, the payload, the issuance time and an optional expiry, with a process-wide
  secret; the codec-level expiry is the issuance time plus the given number of
  seconds, already past when that number is negative, and absent when none is given.
  In the library's terms: the payload already carries \<^verbatim>\<open>iat\<close>, which is taken as the
  timestamp; a numeric \<^verbatim>\<open>expiresIn\<close> (any integer) gives \<^verbatim>\<open>exp = iat + expiresIn\<close>,
  and no \<^verbatim>\<open>expiresIn\<close> gives no \<^verbatim>\<open>exp\<close>.
\<close>

definition jwt_sign :: "payload \<Rightarrow> int \<Rightarrow> string \<Rightarrow> int option \<Rightarrow> jwt" where
  "jwt_sign p iat secret expiresIn =
     \<lparr> claims = p, jwt_iat = iat,
       jwt_exp = (case expiresIn of None \<Rightarrow> None | Some d \<Rightarrow> Some (iat + d)),
       signedWith = secret \<rparr>"

text \<open>
  Modelled from the spec: \<^verbatim>\<open>jwt.verify(token, secret)\<close> of the \<^verbatim>\<open>jsonwebtoken\<close>
  library. The specification's codec rejects a token whose signature does not verify
  (\<open>InvalidSignature\<close>) and one that is past its codec-level expiry (\<open>Expired\<close>). In
  the library's terms: the signature is checked first, then the token is expired when
  \<^verbatim>\<open>clockTimestamp >= payload.exp\<close> with \<^verbatim>\<open>clockTimestamp = floor(Date.now() / 1000)\<close>.
\<close>

definition jwt_verify :: "string \<Rightarrow> millis \<Rightarrow> jwt \<Rightarrow> error + jwt" where
  "jwt_verify secret now tok =
     (if signedWith tok \<noteq> secret then Inl InvalidSignature
      else case jwt_exp tok of
             None \<Rightarrow> Inr tok
           | Some e \<Rightarrow> if now div 1000 \<ge> e then Inl TokenExpired else Inr tok)"

text \<open>The timespan \<^verbatim>\<open>'7d'\<close> in seconds.\<close>

definition SEVEN_DAYS_S :: int where
  "SEVEN_DAYS_S = 7 * 24 * 60 * 60"

definition signTrialToken :: "string \<Rightarrow> millis \<Rightarrow> trial \<Rightarrow> jwt" where
  "signTrialToken secret now p =
     jwt_sign (TrialClaims p) (now div 1000) secret (Some SEVEN_DAYS_S)"

definition verifyTrialToken :: "string \<Rightarrow> millis \<Rightarrow> jwt \<Rightarrow> error + trial" where
  "verifyTrialToken secret now tok =
     (case jwt_verify secret now tok of
        Inl e \<Rightarrow> Inl e
      | Inr decoded \<Rightarrow>
          (case claims decoded of
             TrialClaims t \<Rightarrow>
               Inr \<lparr> startedAt = startedAt t, durationDays = durationDays t \<rparr>
           | _ \<Rightarrow> Inl WrongType))"

definition signLicenseToken :: "string \<Rightarrow> millis \<Rightarrow> license_payload \<Rightarrow> jwt" where
  "signLicenseToken secret now p =
     jwt_sign (LicenseClaims p) (now div 1000) secret
       (case expiresAt p of
          None \<Rightarrow> None
        | Some e \<Rightarrow> Some ((e - now) div 1000))"

definition verifyLicenseToken :: "string \<Rightarrow> millis \<Rightarrow> jwt \<Rightarrow> error + license_payload" where
  "verifyLicenseToken secret now tok =
     (case jwt_verify secret now tok of
        Inl e \<Rightarrow> Inl e
      | Inr decoded \<Rightarrow>
          (case claims decoded of
             LicenseClaims p \<Rightarrow>
               (case expiresAt p of
                  Some expiry \<Rightarrow>
                    if expiry < now then Inl LicenseExpired
                    else Inr \<lparr> name = name p, email = email p, plan = plan p,
                               purchasedAt = purchasedAt p, expiresAt = expiresAt p \<rparr>
                | None \<Rightarrow>
                    Inr \<lparr> name = name p, email = email p, plan = plan p,
                          purchasedAt = purchasedAt p, expiresAt = expiresAt p \<rparr>)
           | _ \<Rightarrow> Inl WrongType))"

section \<open>store.js: the license store\<close>

record metadata =
  paymentIntentId :: "string option"
  subscriptionId :: "string option"
  isDevelopment :: bool

text \<open>
  A stored record is the object literal \<^verbatim>\<open>{ fullToken, license, metadata }\<close>; both
  places that create one (\<^verbatim>\<open>storeLicense\<close> and \<^verbatim>\<open>initializeDevelopmentLicenses\<close>)
  write exactly these three properties.
\<close>

record stored =
  fullToken :: jwt
  license :: license_payload
  metadata :: metadata

record store =
  licenses :: "string \<rightharpoonup> stored"
  paymentIntentIndex :: "string \<rightharpoonup> string"
  subscriptionIndex :: "string \<rightharpoonup> string"

definition no_metadata :: metadata where
  "no_metadata = \<lparr> paymentIntentId = None, subscriptionId = None, isDevelopment = False \<rparr>"

definition storeLicense :: "store \<Rightarrow> string \<Rightarrow> jwt \<Rightarrow> license_payload \<Rightarrow> metadata \<Rightarrow> store" where
  "storeLicense s key tok lic md =
     (let s1 = s\<lparr> licenses := (licenses s)(key \<mapsto>
                   \<lparr> fullToken = tok, license = lic, metadata = md \<rparr>) \<rparr>;
          s2 = (case paymentIntentId md of
                  Some pid \<Rightarrow>
                    if pid \<noteq> [] then s1\<lparr> paymentIntentIndex := (paymentIntentIndex s1)(pid \<mapsto> key) \<rparr>
                    else s1
                | None \<Rightarrow> s1)
      in (case subscriptionId md of
            Some sid \<Rightarrow>
              if sid \<noteq> [] then s2\<lparr> subscriptionIndex := (subscriptionIndex s2)(sid \<mapsto> key) \<rparr>
              else s2
          | None \<Rightarrow> s2))"

definition getLicenseByKey :: "store \<Rightarrow> string \<Rightarrow> stored option" where
  "getLicenseByKey s key = licenses s key"

definition getLicenseByPaymentIntent :: "store \<Rightarrow> string \<Rightarrow> stored option" where
  "getLicenseByPaymentIntent s pid =
     (case paymentIntentIndex s pid of
        None \<Rightarrow> None
      | Some key \<Rightarrow> if key \<noteq> [] then licenses s key else None)"

definition getLicenseBySubscription :: "store \<Rightarrow> string \<Rightarrow> stored option" where
  "getLicenseBySubscription s sid =
     (case subscriptionIndex s sid of
        None \<Rightarrow> None
      | Some key \<Rightarrow> if key \<noteq> [] then licenses s key else None)"

text \<open>
  \<^verbatim>\<open>updateLicense(key, fullToken, license)\<close> mutates the record object held by the map,
  which is the map update below. Its \<open>key\<close> argument is whatever the caller passes:
  \<open>None\<close> is \<^verbatim>\<open>undefined\<close>, under which the map (whose keys are all strings) holds
  nothing.
\<close>

definition updateLicense :: "store \<Rightarrow> string option \<Rightarrow> jwt \<Rightarrow> license_payload \<Rightarrow> store" where
  "updateLicense s key tok lic =
     (case key of
        None \<Rightarrow> s
      | Some k \<Rightarrow>
          (case licenses s k of
             None \<Rightarrow> s
           | Some existing \<Rightarrow>
               s\<lparr> licenses := (licenses s)(k \<mapsto> existing\<lparr> fullToken := tok, license := lic \<rparr>) \<rparr>))"

text \<open>
  The constructor: two development licenses, written into the primary map only.
  \<^verbatim>\<open>'2024-01-01T00:00:00.000Z'\<close> is the instant 1704067200000.
\<close>

definition devLifetime :: license_payload where
  "devLifetime = \<lparr> name = ''Development User'', email = ''dev@example.com'',
                   plan = ''pro-lifetime'', purchasedAt = 1704067200000, expiresAt = None \<rparr>"

definition devAnnual :: "millis \<Rightarrow> license_payload" where
  "devAnnual now = \<lparr> name = ''Development User'', email = ''dev@example.com'',
                     plan = ''pro-annual'', purchasedAt = 1704067200000,
                     expiresAt = Some (now + 365 * DAY_MS) \<rparr>"

definition devMetadata :: metadata where
  "devMetadata = \<lparr> paymentIntentId = None, subscriptionId = None, isDevelopment = True \<rparr>"

definition initializeDevelopmentLicenses :: "string \<Rightarrow> millis \<Rightarrow> store \<Rightarrow> store" where
  "initializeDevelopmentLicenses secret now s =
     s\<lparr> licenses := (licenses s)
          (''PFW-DEV0-LIFE-TIME-TEST'' \<mapsto>
             \<lparr> fullToken = signLicenseToken secret now devLifetime,
               license = devLifetime, metadata = devMetadata \<rparr>,
           ''PFW-DEV0-ANNU-AL00-TEST'' \<mapsto>
             \<lparr> fullToken = signLicenseToken secret now (devAnnual now),
               license = devAnnual now, metadata = devMetadata \<rparr>) \<rparr>"

definition newLicenseStore :: "string \<Rightarrow> millis \<Rightarrow> store" where
  "newLicenseStore secret now =
     initializeDevelopmentLicenses secret now
       \<lparr> licenses = Map.empty, paymentIntentIndex = Map.empty, subscriptionIndex = Map.empty \<rparr>"

section \<open>stripe.js: payment verification\<close>

text \<open>
  The Stripe service is an external collaborator. What the three \<^verbatim>\<open>retrieve\<close> calls
  answer is given as the record \<open>stripe_api\<close>; an id the service does not know makes
  \<^verbatim>\<open>retrieve\<close> throw. A \<^verbatim>\<open>metadata\<close> object is a map from property names to strings
  (an absent object is the empty map, which is what \<^verbatim>\<open>metadata?.name\<close> reads from it).
\<close>

record customer =
  cus_name :: "string option"
  cus_email :: "string option"

record payment_intent =
  pi_id :: string
  pi_status :: string
  pi_customer :: "string option"
  pi_metadata :: "string \<rightharpoonup> string"

record subscription =
  sub_id :: string
  sub_status :: string
  sub_customer :: "string option"
  sub_metadata :: "string \<rightharpoonup> string"
  current_period_end :: int

record invoice =
  inv_subscription :: "string option"
  customer_name :: "string option"
  customer_email :: "string option"

record stripe_api =
  paymentIntents :: "string \<rightharpoonup> payment_intent"
  subscriptions :: "string \<rightharpoonup> subscription"
  customers :: "string \<rightharpoonup> customer"

record customer_info =
  ci_name :: "string option"
  ci_email :: "string option"

text \<open>
  The object \<^verbatim>\<open>verifyStripePayment\<close> resolves to. The \<^verbatim>\<open>catch\<close> branch returns
  \<^verbatim>\<open>{ success: false, error }\<close>, which has no \<^verbatim>\<open>customerInfo\<close>.
\<close>

record verification =
  success :: bool
  customerInfo :: "customer_info option"

definition emptyInfo :: customer_info where
  "emptyInfo = \<lparr> ci_name = None, ci_email = None \<rparr>"

definition caught :: verification where
  "caught = \<lparr> success = False, customerInfo = None \<rparr>"

definition verifyStripePayment :: "stripe_api \<Rightarrow> string \<Rightarrow> string \<Rightarrow> verification" where
  "verifyStripePayment api typ ident =
     (if typ = ''payment_intent'' then
        (case paymentIntents api ident of
           None \<Rightarrow> caught
         | Some paymentIntent \<Rightarrow>
             (let paymentSucceeded = (pi_status paymentIntent = ''succeeded'') in
              if paymentSucceeded \<and> truthy (pi_customer paymentIntent) then
                (case pi_customer paymentIntent of
                   None \<Rightarrow> \<lparr> success = paymentSucceeded, customerInfo = Some emptyInfo \<rparr>
                 | Some cid \<Rightarrow>
                     (case customers api cid of
                        None \<Rightarrow> caught
                      | Some c \<Rightarrow>
                          \<lparr> success = paymentSucceeded,
                            customerInfo = Some
                              \<lparr> ci_name = js_or_opt (cus_name c) (pi_metadata paymentIntent ''name''),
                                ci_email = js_or_opt (cus_email c) (pi_metadata paymentIntent ''email'') \<rparr> \<rparr>))
              else \<lparr> success = paymentSucceeded, customerInfo = Some emptyInfo \<rparr>))
      else if typ = ''subscription'' then
        (case subscriptions api ident of
           None \<Rightarrow> caught
         | Some sub \<Rightarrow>
             (let paymentSucceeded = (sub_status sub \<in> set [''active'', ''trialing'']) in
              if paymentSucceeded \<and> truthy (sub_customer sub) then
                (case sub_customer sub of
                   None \<Rightarrow> \<lparr> success = paymentSucceeded, customerInfo = Some emptyInfo \<rparr>
                 | Some cid \<Rightarrow>
                     (case customers api cid of
                        None \<Rightarrow> caught
                      | Some c \<Rightarrow>
                          \<lparr> success = paymentSucceeded,
                            customerInfo = Some
                              \<lparr> ci_name = js_or_opt (cus_name c) (sub_metadata sub ''customerName''),
                                ci_email = js_or_opt (cus_email c) (sub_metadata sub ''customerEmail'') \<rparr> \<rparr>))
              else \<lparr> success = paymentSucceeded, customerInfo = Some emptyInfo \<rparr>))
      else \<lparr> success = False, customerInfo = Some emptyInfo \<rparr>)"

section \<open>server.js: key generation\<close>

definition chars :: string where
  "chars = ''ABCDEFGHIJKLMNOPQRSTUVWXYZ0123456789''"

text \<open>\<^verbatim>\<open>String.prototype.charAt\<close>: the empty string outside the string.\<close>

definition charAt :: "string \<Rightarrow> int \<Rightarrow> string" where
  "charAt s i = (if 0 \<le> i \<and> i < int (length s) then [s ! nat i] else [])"

text \<open>\<^verbatim>\<open>Array.prototype.join\<close>.\<close>

fun join :: "string \<Rightarrow> string list \<Rightarrow> string" where
  "join sep [] = []"
| "join sep [x] = x"
| "join sep (x # y # ys) = x @ sep @ join sep (y # ys)"

text \<open>
  The random source: \<open>rnd k\<close> is what the \<open>k\<close>-th call of \<^verbatim>\<open>Math.random()\<close> made by one
  run of \<^verbatim>\<open>generateLicenseKey\<close> returns, a number in \<open>[0, 1)\<close>. The inner loop builds
  one segment; the \<open>j\<close>-th character of segment \<open>i\<close> uses draw \<open>4 * i + j\<close>.
\<close>

definition segment :: "(nat \<Rightarrow> real) \<Rightarrow> nat \<Rightarrow> string" where
  "segment rnd i =
     concat (map (\<lambda>j. charAt chars \<lfloor>rnd (4 * i + j) * real (length chars)\<rfloor>) [0..<4])"

definition generateLicenseKey :: "(nat \<Rightarrow> real) \<Rightarrow> string" where
  "generateLicenseKey rnd = ''PFW-'' @ join ''-'' (map (segment rnd) [0..<5])"

section \<open>server.js: webhook handlers\<close>

definition handlePaymentIntentSucceeded ::
  "string \<Rightarrow> store \<Rightarrow> millis \<Rightarrow> (nat \<Rightarrow> real) \<Rightarrow> payment_intent \<Rightarrow> store" where
  "handlePaymentIntentSucceeded secret s now rnd paymentIntent =
     (case getLicenseByPaymentIntent s (pi_id paymentIntent) of
        Some existing \<Rightarrow> s
      | None \<Rightarrow>
          (let lic = \<lparr> name = js_or (pi_metadata paymentIntent ''name'') ''Licensed User'',
                       email = js_or (pi_metadata paymentIntent ''email'') [],
                       plan = ''pro-lifetime'',
                       purchasedAt = now,
                       expiresAt = None \<rparr>;
               tok = signLicenseToken secret now lic;
               licenseKey = generateLicenseKey rnd
           in storeLicense s licenseKey tok lic
                (no_metadata\<lparr> paymentIntentId := Some (pi_id paymentIntent) \<rparr>)))"

definition handleInvoicePaymentSucceeded ::
  "string \<Rightarrow> store \<Rightarrow> millis \<Rightarrow> (nat \<Rightarrow> real) \<Rightarrow> invoice \<Rightarrow> store" where
  "handleInvoicePaymentSucceeded secret s now rnd invoice =
     (case inv_subscription invoice of
        None \<Rightarrow> s
      | Some sid \<Rightarrow>
          if sid = [] then s
          else
            (case getLicenseBySubscription s sid of
               Some existing \<Rightarrow> s
             | None \<Rightarrow>
                 (let lic = \<lparr> name = js_or (customer_name invoice) ''Licensed User'',
                              email = js_or (customer_email invoice) [],
                              plan = ''pro-annual'',
                              purchasedAt = now,
                              expiresAt = Some (now + 365 * DAY_MS) \<rparr>;
                      tok = signLicenseToken secret now lic;
                      licenseKey = generateLicenseKey rnd
                  in storeLicense s licenseKey tok lic
                       (no_metadata\<lparr> subscriptionId := Some sid \<rparr>))))"

text \<open>
  \<^verbatim>\<open>existing.key\<close>: the two subscription handlers read the property \<^verbatim>\<open>key\<close> of the
  record that \<^verbatim>\<open>getLicenseBySubscription\<close> returned, which is the object the primary
  map holds. That object has the properties \<^verbatim>\<open>fullToken\<close>, \<^verbatim>\<open>license\<close> and
  \<^verbatim>\<open>metadata\<close> only (the key is the map's key, not a property of the value), so the
  read gives \<^verbatim>\<open>undefined\<close>, which is \<open>None\<close>.
\<close>

definition key_of :: "stored \<Rightarrow> string option" where
  "key_of existing = None"

definition handleSubscriptionChanged :: "string \<Rightarrow> store \<Rightarrow> millis \<Rightarrow> subscription \<Rightarrow> store" where
  "handleSubscriptionChanged secret s now sub =
     (case getLicenseBySubscription s (sub_id sub) of
        None \<Rightarrow> s
      | Some existing \<Rightarrow>
          if sub_status sub = ''active'' then
            (let updated = (license existing)\<lparr> expiresAt := Some (current_period_end sub * 1000) \<rparr>;
                 newToken = signLicenseToken secret now updated
             in updateLicense s (key_of existing) newToken updated)
          else s)"

definition handleSubscriptionDeleted :: "string \<Rightarrow> store \<Rightarrow> millis \<Rightarrow> subscription \<Rightarrow> store" where
  "handleSubscriptionDeleted secret s now sub =
     (case getLicenseBySubscription s (sub_id sub) of
        None \<Rightarrow> s
      | Some existing \<Rightarrow>
          (let updated = (license existing)\<lparr> expiresAt := Some now \<rparr>;
               newToken = signLicenseToken secret now updated
           in updateLicense s (key_of existing) newToken updated))"

text \<open>
  The webhook route after \<^verbatim>\<open>constructEvent\<close> has accepted the signature: the
  \<^verbatim>\<open>switch\<close> on the event type.
\<close>

datatype event =
    PaymentIntentSucceeded payment_intent
  | InvoicePaymentSucceeded invoice
  | CustomerSubscriptionCreated subscription
  | CustomerSubscriptionUpdated subscription
  | CustomerSubscriptionDeleted subscription
  | Unhandled string

fun stripeWebhook :: "string \<Rightarrow> store \<Rightarrow> millis \<Rightarrow> (nat \<Rightarrow> real) \<Rightarrow> event \<Rightarrow> store" where
  "stripeWebhook secret s now rnd (PaymentIntentSucceeded obj) =
     handlePaymentIntentSucceeded secret s now rnd obj"
| "stripeWebhook secret s now rnd (InvoicePaymentSucceeded obj) =
     handleInvoicePaymentSucceeded secret s now rnd obj"
| "stripeWebhook secret s now rnd (CustomerSubscriptionCreated obj) =
     handleSubscriptionChanged secret s now obj"
| "stripeWebhook secret s now rnd (CustomerSubscriptionUpdated obj) =
     handleSubscriptionChanged secret s now obj"
| "stripeWebhook secret s now rnd (CustomerSubscriptionDeleted obj) =
     handleSubscriptionDeleted secret s now obj"
| "stripeWebhook secret s now rnd (Unhandled ty) = s"

section \<open>server.js: the endpoints\<close>

text \<open>
  An endpoint is modelled from the point where its handler body starts (after the
  rate-limiting middleware). It returns the HTTP status with the JSON body, and the
  store as the request leaves it.
\<close>

datatype body =
    TrialStarted jwt millis millis
  | LicenseIssued jwt string license_payload
  | LicenseVerified jwt license_payload
  | LicenseRedeemed jwt
  | Failure string

type_synonym response = "nat \<times> body"

text \<open>
  \<^verbatim>\<open>POST /api/trial/start\<close>; \<open>trialDays\<close> is
  \<^verbatim>\<open>parseInt(process.env.APP_TRIAL_DAYS || "3", 10)\<close>.
\<close>

definition trialStart :: "string \<Rightarrow> millis \<Rightarrow> int \<Rightarrow> response" where
  "trialStart secret now trialDays =
     (let started = now;
          expires = now + trialDays * DAY_MS;
          trialToken = signTrialToken secret now \<lparr> startedAt = started, durationDays = trialDays \<rparr>
      in (200, TrialStarted trialToken started expires))"

text \<open>
  \<^verbatim>\<open>verifyLicenseToken\<close> applied to a string the client sent: \<open>decode\<close> is the
  library's reading of a compact token, \<open>None\<close> for a string that is not one
  (\<^verbatim>\<open>jwt malformed\<close>).
\<close>

definition verifyLicenseString ::
  "(string \<Rightarrow> jwt option) \<Rightarrow> string \<Rightarrow> millis \<Rightarrow> string \<Rightarrow> error + license_payload" where
  "verifyLicenseString decode secret now str =
     (case decode str of
        None \<Rightarrow> Inl JwtMalformed
      | Some tok \<Rightarrow> verifyLicenseToken secret now tok)"

definition licenseVerify ::
  "(string \<Rightarrow> jwt option) \<Rightarrow> string \<Rightarrow> store \<Rightarrow> millis \<Rightarrow> string option \<Rightarrow> response \<times> store" where
  "licenseVerify decode secret s now licenseKey =
     (case licenseKey of
        None \<Rightarrow> ((400, Failure ''License key required''), s)
      | Some k \<Rightarrow>
          if k = [] then ((400, Failure ''License key required''), s)
          else
            (let resolved =
               (case verifyLicenseString decode secret now k of
                  Inr lic \<Rightarrow> Inr lic
                | Inl e \<Rightarrow>
                    (case getLicenseByKey s k of
                       None \<Rightarrow> Inl LicenseNotFound
                     | Some found \<Rightarrow> verifyLicenseToken secret now (fullToken found)))
             in (case resolved of
                   Inr lic \<Rightarrow> ((200, LicenseVerified (signLicenseToken secret now lic) lic), s)
                 | Inl e \<Rightarrow> ((400, Failure ''Invalid license key''), s))))"

definition licenseRedeem :: "string \<Rightarrow> store \<Rightarrow> millis \<Rightarrow> string option \<Rightarrow> response \<times> store" where
  "licenseRedeem secret s now licenseKey =
     (case licenseKey of
        None \<Rightarrow> ((400, Failure ''License key required''), s)
      | Some k \<Rightarrow>
          if k = [] then ((400, Failure ''License key required''), s)
          else
            (case getLicenseByKey s k of
               None \<Rightarrow> ((400, Failure ''Invalid license key''), s)
             | Some found \<Rightarrow>
                 (case verifyLicenseToken secret now (fullToken found) of
                    Inl e \<Rightarrow> ((400, Failure ''Invalid license key''), s)
                  | Inr lic \<Rightarrow> ((200, LicenseRedeemed (fullToken found)), s))))"

record license_request =
  req_plan :: "string option"
  req_paymentIntentId :: "string option"
  req_subscriptionId :: "string option"

text \<open>
  The verification step of \<^verbatim>\<open>POST /api/payments/license\<close>: the values of
  \<^verbatim>\<open>paymentVerified\<close> and \<^verbatim>\<open>customerInfo\<close> when the handler reaches
  \<^verbatim>\<open>if (!paymentVerified)\<close>.
\<close>

definition checkPayment :: "stripe_api \<Rightarrow> license_request \<Rightarrow> bool \<times> customer_info" where
  "checkPayment api req =
     (if req_plan req = Some ''lifetime'' \<and> truthy (req_paymentIntentId req) then
        (case req_paymentIntentId req of
           None \<Rightarrow> (False, emptyInfo)
         | Some pid \<Rightarrow>
             (let v = verifyStripePayment api ''payment_intent'' pid
              in (success v, case customerInfo v of None \<Rightarrow> emptyInfo | Some ci \<Rightarrow> ci)))
      else if req_plan req = Some ''annual'' \<and> truthy (req_subscriptionId req) then
        (case req_subscriptionId req of
           None \<Rightarrow> (False, emptyInfo)
         | Some sid \<Rightarrow>
             (let v = verifyStripePayment api ''subscription'' sid
              in (success v, case customerInfo v of None \<Rightarrow> emptyInfo | Some ci \<Rightarrow> ci)))
      else (False, emptyInfo))"

text \<open>\<^verbatim>\<open>x || null\<close> on a request field.\<close>

definition or_null :: "string option \<Rightarrow> string option" where
  "or_null a = (if truthy a then a else None)"

definition paymentsLicense ::
  "stripe_api \<Rightarrow> string \<Rightarrow> store \<Rightarrow> millis \<Rightarrow> (nat \<Rightarrow> real) \<Rightarrow> license_request \<Rightarrow> response \<times> store" where
  "paymentsLicense api secret s now rnd req =
     (if \<not> truthy (req_plan req) \<or> req_plan req \<notin> set [Some ''annual'', Some ''lifetime''] then
        ((400, Failure ''Invalid plan''), s)
      else
        (let (paymentVerified, info) = checkPayment api req in
         if \<not> paymentVerified then ((400, Failure ''Payment not verified''), s)
         else
           (let lic = \<lparr> name = js_or (ci_name info) ''Licensed User'',
                        email = js_or (ci_email info) [],
                        plan = (if req_plan req = Some ''annual'' then ''pro-annual'' else ''pro-lifetime''),
                        purchasedAt = now,
                        expiresAt = (if req_plan req = Some ''annual''
                                     then Some (now + 365 * DAY_MS) else None) \<rparr>;
                tok = signLicenseToken secret now lic;
                licenseKey = generateLicenseKey rnd;
                s' = storeLicense s licenseKey tok lic
                       \<lparr> paymentIntentId = or_null (req_paymentIntentId req),
                         subscriptionId = or_null (req_subscriptionId req),
                         isDevelopment = False \<rparr>
            in ((200, LicenseIssued tok licenseKey lic), s'))))"

section \<open>Predicates of the specification\<close>

text \<open>
  The key format in the specification's words: \<^verbatim>\<open>PFW\<close> followed by \<open>n\<close> groups, each a
  dash and exactly four characters of \<^verbatim>\<open>[A-Z0-9]\<close>, and nothing after them. The
  pattern the specification prints, \<^verbatim>\<open>PFW-[A-Z0-9]{4}-[A-Z0-9]{4}-[A-Z0-9]{4}-[A-Z0-9]{4}\<close>,
  is \<open>spec_keyPattern 4\<close>.
\<close>

definition spec_alnumUpper :: "char \<Rightarrow> bool" where
  "spec_alnumUpper c = (c \<in> set ''ABCDEFGHIJKLMNOPQRSTUVWXYZ0123456789'')"

fun spec_groups :: "nat \<Rightarrow> string \<Rightarrow> bool" where
  "spec_groups 0 s = (s = [])"
| "spec_groups (Suc n) s =
     (case s of
        d # a # b # c # e # rest \<Rightarrow>
          d = CHR ''-'' \<and> spec_alnumUpper a \<and> spec_alnumUpper b \<and> spec_alnumUpper c
          \<and> spec_alnumUpper e \<and> spec_groups n rest
      | _ \<Rightarrow> False)"

definition spec_keyPattern :: "nat \<Rightarrow> string \<Rightarrow> bool" where
  "spec_keyPattern n k = (take 3 k = ''PFW'' \<and> spec_groups n (drop 3 k))"

text \<open>
  A confirmed payment in the specification's words: the request names an id that
  matches its plan, and the payment service reports that payment as settled (a
  succeeded payment intent for the lifetime plan, an active or trialing subscription
  for the annual plan).
\<close>

definition spec_paymentSettled :: "stripe_api \<Rightarrow> license_request \<Rightarrow> bool" where
  "spec_paymentSettled api req =
     (case req_plan req of
        None \<Rightarrow> False
      | Some pl \<Rightarrow>
          if pl = ''lifetime'' then
            (case req_paymentIntentId req of
               None \<Rightarrow> False
             | Some pid \<Rightarrow>
                 pid \<noteq> [] \<and>
                 (case paymentIntents api pid of
                    None \<Rightarrow> False
                  | Some p \<Rightarrow> pi_status p = ''succeeded''))
          else if pl = ''annual'' then
            (case req_subscriptionId req of
               None \<Rightarrow> False
             | Some sid \<Rightarrow>
                 sid \<noteq> [] \<and>
                 (case subscriptions api sid of
                    None \<Rightarrow> False
                  | Some sub \<Rightarrow> sub_status sub = ''active'' \<or> sub_status sub = ''trialing''))
          else False)"

section \<open>Basic facts\<close>

lemma truthy_iff: "truthy a \<longleftrightarrow> (\<exists>s. a = Some s \<and> s \<noteq> [])"
  by (cases a) auto

lemma verify_sign_license:
  "verifyLicenseToken secret t (signLicenseToken secret signedAt p) =
     (case expiresAt p of
        None \<Rightarrow> Inr p
      | Some e \<Rightarrow>
          if signedAt div 1000 + (e - signedAt) div 1000 \<le> t div 1000 then Inl TokenExpired
          else if e < t then Inl LicenseExpired else Inr p)"
  by (cases p)
    (simp add: verifyLicenseToken_def signLicenseToken_def jwt_verify_def jwt_sign_def
      split: option.splits)

lemma newLicenseStore_lifetime:
  "getLicenseByKey (newLicenseStore secret t0) ''PFW-DEV0-LIFE-TIME-TEST'' =
     Some \<lparr> fullToken = signLicenseToken secret t0 devLifetime,
            license = devLifetime, metadata = devMetadata \<rparr>"
  by (simp add: newLicenseStore_def initializeDevelopmentLicenses_def getLicenseByKey_def)

lemma newLicenseStore_indexes:
  "paymentIntentIndex (newLicenseStore secret t0) = Map.empty"
  "subscriptionIndex (newLicenseStore secret t0) = Map.empty"
  by (simp_all add: newLicenseStore_def initializeDevelopmentLicenses_def)



lemma subscription_lookup_after_storeLicense:
  assumes "sid \<noteq> []" "key \<noteq> []"
  shows "getLicenseBySubscription
           (storeLicense s key tok lic (no_metadata\<lparr> subscriptionId := Some sid \<rparr>)) sid
         = Some \<lparr> fullToken = tok, license = lic,
                  metadata = no_metadata\<lparr> subscriptionId := Some sid \<rparr> \<rparr>"
  using assms
  by (simp add: getLicenseBySubscription_def storeLicense_def no_metadata_def)

subsection \<open>Key generation\<close>

lemma upt4: "[0..<4] = [0, 1, 2, 3]"
  by (simp add: upt_rec)

lemma upt5: "[0..<5] = [0, 1, 2, 3, 4]"
  by (simp add: upt_rec)

text \<open>
  A draw in \<open>[0, 1)\<close> selects a character of the alphabet. The product is taken in the
  reals; only its floor lying in \<open>[0, 36)\<close> matters below.
\<close>

lemma charAt_chars:
  assumes "0 \<le> r" "r < 1"
  shows "\<exists>c. charAt chars \<lfloor>r * real (length chars)\<rfloor> = [c] \<and> spec_alnumUpper c"
proof -
  define i where "i = \<lfloor>r * real (length chars)\<rfloor>"
  have len: "length chars = 36"
    by (simp add: chars_def)
  have lo: "0 \<le> i"
    unfolding i_def len using assms by simp
  have "r * 36 < 36"
    using assms by simp
  then have hi: "i < 36"
    unfolding i_def len by (simp add: floor_less_iff)
  have "nat i < length chars"
    using lo hi len by linarith
  then have "chars ! nat i \<in> set chars"
    by (rule nth_mem)
  then have "spec_alnumUpper (chars ! nat i)"
    by (simp add: spec_alnumUpper_def chars_def)
  moreover have "charAt chars i = [chars ! nat i]"
    using lo hi len by (simp add: charAt_def)
  ultimately show ?thesis
    unfolding i_def by blast
qed

lemma segment_shape:
  assumes "\<forall>j<4. 0 \<le> rnd (4 * i + j) \<and> rnd (4 * i + j) < 1"
  shows "\<exists>a b c d. segment rnd i = [a, b, c, d]
           \<and> spec_alnumUpper a \<and> spec_alnumUpper b \<and> spec_alnumUpper c \<and> spec_alnumUpper d"
proof -
  have r: "0 \<le> rnd (4 * i + j) \<and> rnd (4 * i + j) < 1" if "j < 4" for j
    using assms that by blast
  obtain a where a: "charAt chars \<lfloor>rnd (4 * i + 0) * real (length chars)\<rfloor> = [a]" "spec_alnumUpper a"
    using charAt_chars [of "rnd (4 * i + 0)"] r [of 0] by auto
  obtain b where b: "charAt chars \<lfloor>rnd (4 * i + 1) * real (length chars)\<rfloor> = [b]" "spec_alnumUpper b"
    using charAt_chars [of "rnd (4 * i + 1)"] r [of 1] by auto
  obtain c where c: "charAt chars \<lfloor>rnd (4 * i + 2) * real (length chars)\<rfloor> = [c]" "spec_alnumUpper c"
    using charAt_chars [of "rnd (4 * i + 2)"] r [of 2] by auto
  obtain d where d: "charAt chars \<lfloor>rnd (4 * i + 3) * real (length chars)\<rfloor> = [d]" "spec_alnumUpper d"
    using charAt_chars [of "rnd (4 * i + 3)"] r [of 3] by auto
  show ?thesis
    using a b c d by (simp add: segment_def upt4)
qed

lemma segment_zero: "segment (\<lambda>k. 0) i = ''AAAA''"
  by (simp add: segment_def upt4 charAt_def chars_def)

lemma segment_half: "segment (\<lambda>k. 1 / 2) i = ''SSSS''"
  by (simp add: segment_def upt4 charAt_def chars_def)

lemma key_zero: "generateLicenseKey (\<lambda>k. 0) = ''PFW-AAAA-AAAA-AAAA-AAAA-AAAA''"
  by (simp add: generateLicenseKey_def upt5 segment_zero)

lemma key_half: "generateLicenseKey (\<lambda>k. 1 / 2) = ''PFW-SSSS-SSSS-SSSS-SSSS-SSSS''"
  by (simp add: generateLicenseKey_def upt5 segment_half)


subsection \<open>The subscription handlers\<close>

text \<open>
  Both subscription handlers hand \<open>key_of existing\<close> to \<open>updateLicense\<close>, which finds
  nothing under it: neither handler ever changes the store.
\<close>

lemma handleSubscriptionChanged_unchanged:
  "handleSubscriptionChanged secret s now sub = s"
  by (simp add: handleSubscriptionChanged_def key_of_def updateLicense_def split: option.splits)

lemma handleSubscriptionDeleted_unchanged:
  "handleSubscriptionDeleted secret s now sub = s"
  by (simp add: handleSubscriptionDeleted_def key_of_def updateLicense_def split: option.splits)

text \<open>
  The store after one paid invoice for the subscription \<^verbatim>\<open>sub_1\<close>, delivered at instant
  1000 to the store as constructed.
\<close>

lemma invoice_paid_store:
  "handleInvoicePaymentSucceeded ''s3cret'' (newLicenseStore ''s3cret'' 0) 1000 (\<lambda>k. 0)
         \<lparr> inv_subscription = Some ''sub_1'', customer_name = None, customer_email = None \<rparr>
       = storeLicense (newLicenseStore ''s3cret'' 0) ''PFW-AAAA-AAAA-AAAA-AAAA-AAAA''
           (signLicenseToken ''s3cret'' 1000
              \<lparr> name = ''Licensed User'', email = [], plan = ''pro-annual'', purchasedAt = 1000,
                expiresAt = Some (1000 + 365 * DAY_MS) \<rparr>)
           \<lparr> name = ''Licensed User'', email = [], plan = ''pro-annual'', purchasedAt = 1000,
             expiresAt = Some (1000 + 365 * DAY_MS) \<rparr>
           (no_metadata\<lparr> subscriptionId := Some ''sub_1'' \<rparr>)"
proof -
  have miss: "getLicenseBySubscription (newLicenseStore ''s3cret'' 0) ''sub_1'' = None"
    by (simp add: getLicenseBySubscription_def newLicenseStore_indexes)
  show ?thesis
    by (simp add: handleInvoicePaymentSucceeded_def miss js_or_def Let_def key_zero)
qed

subsection \<open>Payment verification\<close>

lemma checkPayment_settled:
  "fst (checkPayment api req) \<Longrightarrow> spec_paymentSettled api req"
  by (auto simp add: checkPayment_def spec_paymentSettled_def verifyStripePayment_def caught_def
      Let_def truthy_iff split: if_splits option.splits)

section \<open>The token codec: round trips and expiry\<close>

text \<open>
  C4, as the code has it. A trial token signed at \<open>signedAt\<close> verifies to exactly the
  pair it was signed from until the clock, in whole seconds, reaches the signing second
  plus seven days, and fails with the library's expiry error from then on, whatever
  \<open>durationDays\<close> is. The seven days run from the signing time and not from
  \<open>startedAt\<close>; when the two are the same instant, as in the trial start endpoint,
  verification fails once the clock exceeds \<open>startedAt\<close> plus seven days.
\<close>

theorem trial_token_expires_after_signing:
  "verifyTrialToken secret t (signTrialToken secret signedAt p) =
     (if signedAt div 1000 + SEVEN_DAYS_S \<le> t div 1000 then Inl TokenExpired else Inr p)
   \<and> (startedAt p = signedAt \<and> startedAt p + 7 * DAY_MS < t \<longrightarrow>
        verifyTrialToken secret t (signTrialToken secret signedAt p) = Inl TokenExpired)"
  by (cases p)
    (auto simp add: verifyTrialToken_def signTrialToken_def jwt_verify_def jwt_sign_def
      SEVEN_DAYS_S_def DAY_MS_def)

theorem trial_token_expires_after_signing_witness:
  "verifyTrialToken ''s3cret'' 5000
       (signTrialToken ''s3cret'' 5000 \<lparr> startedAt = 5000, durationDays = 30 \<rparr>)
     = Inr \<lparr> startedAt = 5000, durationDays = 30 \<rparr>
   \<and> (5000::int) + 7 * DAY_MS < 604805001
   \<and> verifyTrialToken ''s3cret'' 604805001
       (signTrialToken ''s3cret'' 5000 \<lparr> startedAt = 5000, durationDays = 30 \<rparr>)
     = Inl TokenExpired"
  using trial_token_expires_after_signing
      [of "''s3cret''" 5000 5000 "\<lparr> startedAt = 5000, durationDays = 30 \<rparr>"]
    trial_token_expires_after_signing
      [of "''s3cret''" 604805001 5000 "\<lparr> startedAt = 5000, durationDays = 30 \<rparr>"]
  by (simp add: SEVEN_DAYS_S_def DAY_MS_def)

text \<open>
  C4 as stated fails where \<open>startedAt\<close> is not the signing time: a token for a trial
  that started at instant 0, signed at instant 1000000000000, still verifies one second
  after signing, long after \<open>startedAt\<close> plus seven days.
\<close>

theorem trial_expiry_from_startedAt_counterexample:
  "(0::int) + 7 * DAY_MS < 1000000001000
   \<and> verifyTrialToken ''s3cret'' 1000000001000
        (signTrialToken ''s3cret'' 1000000000000 \<lparr> startedAt = 0, durationDays = 3 \<rparr>)
      = Inr \<lparr> startedAt = 0, durationDays = 3 \<rparr>"
  by (simp add: verifyTrialToken_def signTrialToken_def jwt_verify_def jwt_sign_def
      SEVEN_DAYS_S_def DAY_MS_def)

text \<open>
  C5. A license payload whose \<open>expiresAt\<close> is null is signed without a codec-level
  expiry, and verifying the signed token returns the payload at every check time.
\<close>

theorem lifetime_license_verifies_forever:
  "expiresAt p = None \<Longrightarrow>
     verifyLicenseToken secret t (signLicenseToken secret signedAt p) = Inr p
     \<and> jwt_exp (signLicenseToken secret signedAt p) = None"
  by (cases p)
    (simp add: verifyLicenseToken_def signLicenseToken_def jwt_verify_def jwt_sign_def)

theorem lifetime_license_verifies_forever_witness:
  "expiresAt devLifetime = None
   \<and> verifyLicenseToken ''s3cret'' 4102444800000
        (signLicenseToken ''s3cret'' 1704067200000 devLifetime) = Inr devLifetime
   \<and> jwt_exp (signLicenseToken ''s3cret'' 1704067200000 devLifetime) = None"
proof -
  have h: "expiresAt devLifetime = None"
    by (simp add: devLifetime_def)
  from lifetime_license_verifies_forever [OF h, of "''s3cret''" 4102444800000 1704067200000]
  show ?thesis using h by simp
qed

section \<open>The development licenses\<close>

text \<open>
  C9. The store is constructed holding the development lifetime license, outside both
  secondary indexes. Redeeming the key \<^verbatim>\<open>PFW-DEV0-LIFE-TIME-TEST\<close> against the store as
  constructed, at any time, answers 200 with the stored token; that token carries the
  development payload, whose plan is \<^verbatim>\<open>pro-lifetime\<close> and whose \<open>expiresAt\<close> is null,
  and it verifies to that payload.
\<close>

theorem dev_lifetime_key_redeems:
  "licenseRedeem secret (newLicenseStore secret t0) t (Some ''PFW-DEV0-LIFE-TIME-TEST'')
     = ((200, LicenseRedeemed (signLicenseToken secret t0 devLifetime)), newLicenseStore secret t0)
   \<and> claims (signLicenseToken secret t0 devLifetime) = LicenseClaims devLifetime
   \<and> verifyLicenseToken secret t (signLicenseToken secret t0 devLifetime) = Inr devLifetime
   \<and> plan devLifetime = ''pro-lifetime'' \<and> expiresAt devLifetime = None
   \<and> paymentIntentIndex (newLicenseStore secret t0) = Map.empty
   \<and> subscriptionIndex (newLicenseStore secret t0) = Map.empty"
proof -
  have e: "expiresAt devLifetime = None" and pl: "plan devLifetime = ''pro-lifetime''"
    by (simp_all add: devLifetime_def)
  have v: "verifyLicenseToken secret t (signLicenseToken secret t0 devLifetime) = Inr devLifetime"
    by (simp add: verify_sign_license e)
  have r: "licenseRedeem secret (newLicenseStore secret t0) t (Some ''PFW-DEV0-LIFE-TIME-TEST'')
     = ((200, LicenseRedeemed (signLicenseToken secret t0 devLifetime)), newLicenseStore secret t0)"
    by (simp add: licenseRedeem_def newLicenseStore_lifetime v)
  have c: "claims (signLicenseToken secret t0 devLifetime) = LicenseClaims devLifetime"
    by (simp add: signLicenseToken_def jwt_sign_def)
  have i: "paymentIntentIndex (newLicenseStore secret t0) = Map.empty"
     "subscriptionIndex (newLicenseStore secret t0) = Map.empty"
    by (simp_all add: newLicenseStore_def initializeDevelopmentLicenses_def)
  show ?thesis using e pl v r c i by simp
qed

section \<open>Key format\<close>

text \<open>
  C8, as the code has it. The generator's outer loop runs five times, so with every
  draw in \<open>[0, 1)\<close> a generated key is \<^verbatim>\<open>PFW\<close> followed by five groups of a dash and
  four characters of the alphabet, 28 characters in all; its first 23 characters have
  the four-group shape the specification prints.
\<close>

theorem generated_key_has_five_groups:
  assumes "\<forall>k<20. 0 \<le> rnd k \<and> rnd k < 1"
  shows "spec_keyPattern 5 (generateLicenseKey rnd)
         \<and> length (generateLicenseKey rnd) = 28
         \<and> spec_keyPattern 4 (take 23 (generateLicenseKey rnd))"
proof -
  have s: "\<exists>a b c d. segment rnd i = [a, b, c, d]
             \<and> spec_alnumUpper a \<and> spec_alnumUpper b \<and> spec_alnumUpper c \<and> spec_alnumUpper d"
    if "i < 5" for i
  proof (rule segment_shape)
    show "\<forall>j<4. 0 \<le> rnd (4 * i + j) \<and> rnd (4 * i + j) < 1"
      using assms that by auto
  qed
  obtain a0 b0 c0 d0 where g0: "segment rnd 0 = [a0, b0, c0, d0]"
      "spec_alnumUpper a0" "spec_alnumUpper b0" "spec_alnumUpper c0" "spec_alnumUpper d0"
    using s [of 0] by auto
  obtain a1 b1 c1 d1 where g1: "segment rnd 1 = [a1, b1, c1, d1]"
      "spec_alnumUpper a1" "spec_alnumUpper b1" "spec_alnumUpper c1" "spec_alnumUpper d1"
    using s [of 1] by auto
  obtain a2 b2 c2 d2 where g2: "segment rnd 2 = [a2, b2, c2, d2]"
      "spec_alnumUpper a2" "spec_alnumUpper b2" "spec_alnumUpper c2" "spec_alnumUpper d2"
    using s [of 2] by auto
  obtain a3 b3 c3 d3 where g3: "segment rnd 3 = [a3, b3, c3, d3]"
      "spec_alnumUpper a3" "spec_alnumUpper b3" "spec_alnumUpper c3" "spec_alnumUpper d3"
    using s [of 3] by auto
  obtain a4 b4 c4 d4 where g4: "segment rnd 4 = [a4, b4, c4, d4]"
      "spec_alnumUpper a4" "spec_alnumUpper b4" "spec_alnumUpper c4" "spec_alnumUpper d4"
    using s [of 4] by auto
  have five: "spec_groups 5 str = spec_groups (Suc (Suc (Suc (Suc (Suc 0))))) str"
    and four: "spec_groups 4 str = spec_groups (Suc (Suc (Suc (Suc 0)))) str" for str
    by (simp_all add: numeral_eq_Suc)
  show ?thesis
    using g0 g1 g2 g3 g4
    by (simp add: generateLicenseKey_def upt5 spec_keyPattern_def five four)
qed

theorem generated_key_has_five_groups_witness:
  "(0::real) \<le> 1 / 2 \<and> (1 / 2::real) < 1
   \<and> generateLicenseKey (\<lambda>k. 1 / 2) = ''PFW-SSSS-SSSS-SSSS-SSSS-SSSS''
   \<and> spec_keyPattern 5 (generateLicenseKey (\<lambda>k. 1 / 2))
   \<and> length (generateLicenseKey (\<lambda>k. 1 / 2)) = 28
   \<and> spec_keyPattern 4 (take 23 (generateLicenseKey (\<lambda>k. 1 / 2)))"
  using generated_key_has_five_groups [of "\<lambda>k. 1 / 2"] key_half
  by simp

text \<open>
  C8 as stated fails: with every draw 0 the generator returns
  \<^verbatim>\<open>PFW-AAAA-AAAA-AAAA-AAAA-AAAA\<close>, which is not a string of the four-group pattern.
\<close>

theorem four_group_pattern_counterexample:
  "generateLicenseKey (\<lambda>k. 0) = ''PFW-AAAA-AAAA-AAAA-AAAA-AAAA''
   \<and> \<not> spec_keyPattern 4 (generateLicenseKey (\<lambda>k. 0))"
  by (simp add: key_zero spec_keyPattern_def numeral_eq_Suc)

section \<open>Webhook: charge succeeded\<close>



section \<open>Webhook: subscription events\<close>

text \<open>
  C2, at a concrete input. The store holds the annual record that a paid invoice for
  \<^verbatim>\<open>sub_1\<close> created at instant 1000, expiring at 1000 + 365 days. A
  subscription-updated event for \<^verbatim>\<open>sub_1\<close> with status \<^verbatim>\<open>active\<close> and a period end
  of 63072000 s, which is later than that expiry, leaves the store as it was: the
  record keeps its old \<open>expiresAt\<close>.
\<close>

theorem renewal_event_changes_nothing:
  "getLicenseBySubscription
      (handleInvoicePaymentSucceeded ''s3cret'' (newLicenseStore ''s3cret'' 0) 1000 (\<lambda>k. 0)
         \<lparr> inv_subscription = Some ''sub_1'', customer_name = None, customer_email = None \<rparr>)
      ''sub_1''
    = Some \<lparr> fullToken = signLicenseToken ''s3cret'' 1000
                 \<lparr> name = ''Licensed User'', email = [], plan = ''pro-annual'', purchasedAt = 1000,
                   expiresAt = Some (1000 + 365 * DAY_MS) \<rparr>,
             license = \<lparr> name = ''Licensed User'', email = [], plan = ''pro-annual'', purchasedAt = 1000,
                   expiresAt = Some (1000 + 365 * DAY_MS) \<rparr>,
             metadata = no_metadata\<lparr> subscriptionId := Some ''sub_1'' \<rparr> \<rparr>
   \<and> 1000 + 365 * DAY_MS < (63072000::int) * 1000
   \<and> handleSubscriptionChanged ''s3cret''
        (handleInvoicePaymentSucceeded ''s3cret'' (newLicenseStore ''s3cret'' 0) 1000 (\<lambda>k. 0)
           \<lparr> inv_subscription = Some ''sub_1'', customer_name = None, customer_email = None \<rparr>)
        2000
        \<lparr> sub_id = ''sub_1'', sub_status = ''active'', sub_customer = None,
          sub_metadata = Map.empty, current_period_end = 63072000 \<rparr>
      = handleInvoicePaymentSucceeded ''s3cret'' (newLicenseStore ''s3cret'' 0) 1000 (\<lambda>k. 0)
           \<lparr> inv_subscription = Some ''sub_1'', customer_name = None, customer_email = None \<rparr>"
  unfolding invoice_paid_store
  by (simp add: subscription_lookup_after_storeLicense handleSubscriptionChanged_unchanged DAY_MS_def)

text \<open>
  C3, at a concrete input. With the same record in the store, a subscription-deleted
  event for \<^verbatim>\<open>sub_1\<close> processed at instant 2000 leaves the store as it was: the record
  still expires at 1000 + 365 days (the instant 31536001000), and its stored token
  still verifies at instant 3000.
\<close>

theorem deleted_event_changes_nothing:
  "handleSubscriptionDeleted ''s3cret''
        (handleInvoicePaymentSucceeded ''s3cret'' (newLicenseStore ''s3cret'' 0) 1000 (\<lambda>k. 0)
           \<lparr> inv_subscription = Some ''sub_1'', customer_name = None, customer_email = None \<rparr>)
        2000
        \<lparr> sub_id = ''sub_1'', sub_status = ''canceled'', sub_customer = None,
          sub_metadata = Map.empty, current_period_end = 31536001 \<rparr>
      = handleInvoicePaymentSucceeded ''s3cret'' (newLicenseStore ''s3cret'' 0) 1000 (\<lambda>k. 0)
           \<lparr> inv_subscription = Some ''sub_1'', customer_name = None, customer_email = None \<rparr>
   \<and> map_option (\<lambda>r. expiresAt (license r))
        (getLicenseBySubscription
           (handleSubscriptionDeleted ''s3cret''
              (handleInvoicePaymentSucceeded ''s3cret'' (newLicenseStore ''s3cret'' 0) 1000 (\<lambda>k. 0)
                 \<lparr> inv_subscription = Some ''sub_1'', customer_name = None, customer_email = None \<rparr>)
              2000
              \<lparr> sub_id = ''sub_1'', sub_status = ''canceled'', sub_customer = None,
                sub_metadata = Map.empty, current_period_end = 31536001 \<rparr>)
           ''sub_1'')
      = Some (Some 31536001000)
   \<and> map_option (\<lambda>r. verifyLicenseToken ''s3cret'' 3000 (fullToken r))
        (getLicenseBySubscription
           (handleSubscriptionDeleted ''s3cret''
              (handleInvoicePaymentSucceeded ''s3cret'' (newLicenseStore ''s3cret'' 0) 1000 (\<lambda>k. 0)
                 \<lparr> inv_subscription = Some ''sub_1'', customer_name = None, customer_email = None \<rparr>)
              2000
              \<lparr> sub_id = ''sub_1'', sub_status = ''canceled'', sub_customer = None,
                sub_metadata = Map.empty, current_period_end = 31536001 \<rparr>)
           ''sub_1'')
      = Some (Inr \<lparr> name = ''Licensed User'', email = [], plan = ''pro-annual'', purchasedAt = 1000,
                     expiresAt = Some 31536001000 \<rparr>)"
  unfolding handleSubscriptionDeleted_unchanged invoice_paid_store
  by (simp add: subscription_lookup_after_storeLicense verify_sign_license DAY_MS_def)

text \<open>
  C10. A subscription-created or subscription-updated event whose subscription id has
  a record in the store, and whose status is anything but \<^verbatim>\<open>active\<close>, leaves the
  whole store (records, tokens, payloads and both indexes) as it was.
\<close>

theorem inactive_subscription_event_leaves_store:
  assumes "ev = CustomerSubscriptionUpdated sub \<or> ev = CustomerSubscriptionCreated sub"
    and "getLicenseBySubscription s (sub_id sub) = Some existing"
    and "sub_status sub \<noteq> ''active''"
  shows "stripeWebhook secret s now rnd ev = s"
  using assms by (auto simp add: handleSubscriptionChanged_def)

theorem inactive_subscription_event_leaves_store_witness:
  "getLicenseBySubscription
      (storeLicense (newLicenseStore ''s3cret'' 0) ''PFW-AAAA-AAAA-AAAA-AAAA-AAAA''
         (signLicenseToken ''s3cret'' 1000 (devAnnual 1000)) (devAnnual 1000)
         (no_metadata\<lparr> subscriptionId := Some ''sub_1'' \<rparr>))
      (sub_id \<lparr> sub_id = ''sub_1'', sub_status = ''past_due'', sub_customer = None,
          sub_metadata = Map.empty, current_period_end = 63072000 \<rparr>)
    = Some \<lparr> fullToken = signLicenseToken ''s3cret'' 1000 (devAnnual 1000), license = devAnnual 1000,
             metadata = no_metadata\<lparr> subscriptionId := Some ''sub_1'' \<rparr> \<rparr>
   \<and> sub_status \<lparr> sub_id = ''sub_1'', sub_status = ''past_due'', sub_customer = None,
          sub_metadata = Map.empty, current_period_end = 63072000 \<rparr> \<noteq> ''active''
   \<and> stripeWebhook ''s3cret''
        (storeLicense (newLicenseStore ''s3cret'' 0) ''PFW-AAAA-AAAA-AAAA-AAAA-AAAA''
           (signLicenseToken ''s3cret'' 1000 (devAnnual 1000)) (devAnnual 1000)
           (no_metadata\<lparr> subscriptionId := Some ''sub_1'' \<rparr>))
        2000 (\<lambda>k. 0)
        (CustomerSubscriptionUpdated
           \<lparr> sub_id = ''sub_1'', sub_status = ''past_due'', sub_customer = None,
             sub_metadata = Map.empty, current_period_end = 63072000 \<rparr>)
      = storeLicense (newLicenseStore ''s3cret'' 0) ''PFW-AAAA-AAAA-AAAA-AAAA-AAAA''
           (signLicenseToken ''s3cret'' 1000 (devAnnual 1000)) (devAnnual 1000)
           (no_metadata\<lparr> subscriptionId := Some ''sub_1'' \<rparr>)
   \<and> stripeWebhook ''s3cret''
        (storeLicense (newLicenseStore ''s3cret'' 0) ''PFW-AAAA-AAAA-AAAA-AAAA-AAAA''
           (signLicenseToken ''s3cret'' 1000 (devAnnual 1000)) (devAnnual 1000)
           (no_metadata\<lparr> subscriptionId := Some ''sub_1'' \<rparr>))
        2000 (\<lambda>k. 0)
        (CustomerSubscriptionCreated
           \<lparr> sub_id = ''sub_1'', sub_status = ''past_due'', sub_customer = None,
             sub_metadata = Map.empty, current_period_end = 63072000 \<rparr>)
      = storeLicense (newLicenseStore ''s3cret'' 0) ''PFW-AAAA-AAAA-AAAA-AAAA-AAAA''
           (signLicenseToken ''s3cret'' 1000 (devAnnual 1000)) (devAnnual 1000)
           (no_metadata\<lparr> subscriptionId := Some ''sub_1'' \<rparr>)"
proof -
  let ?sub = "\<lparr> sub_id = ''sub_1'', sub_status = ''past_due'', sub_customer = None,
          sub_metadata = Map.empty, current_period_end = 63072000 \<rparr>"
  let ?s = "storeLicense (newLicenseStore ''s3cret'' 0) ''PFW-AAAA-AAAA-AAAA-AAAA-AAAA''
         (signLicenseToken ''s3cret'' 1000 (devAnnual 1000)) (devAnnual 1000)
         (no_metadata\<lparr> subscriptionId := Some ''sub_1'' \<rparr>)"
  have a: "getLicenseBySubscription ?s (sub_id ?sub)
      = Some \<lparr> fullToken = signLicenseToken ''s3cret'' 1000 (devAnnual 1000), license = devAnnual 1000,
             metadata = no_metadata\<lparr> subscriptionId := Some ''sub_1'' \<rparr> \<rparr>"
    by (simp add: subscription_lookup_after_storeLicense)
  have b: "sub_status ?sub \<noteq> ''active''"
    by simp
  have u: "CustomerSubscriptionUpdated ?sub = CustomerSubscriptionUpdated ?sub
           \<or> CustomerSubscriptionUpdated ?sub = CustomerSubscriptionCreated ?sub"
    by simp
  have c: "CustomerSubscriptionCreated ?sub = CustomerSubscriptionUpdated ?sub
           \<or> CustomerSubscriptionCreated ?sub = CustomerSubscriptionCreated ?sub"
    by simp
  from inactive_subscription_event_leaves_store [OF u a b, of "''s3cret''" 2000 "\<lambda>k. 0"]
    inactive_subscription_event_leaves_store [OF c a b, of "''s3cret''" 2000 "\<lambda>k. 0"] a b
  show ?thesis
    by blast
qed

section \<open>Synchronous issuance\<close>

text \<open>
  C6. Whenever the handler's own verification does not succeed, or the payment
  service does not report the payment named by the request as settled (which covers
  a request with no id matching its plan), the request is answered 400 and the store
  is left exactly as it was. No token or key is part of the answer: for a plan of
  \<^verbatim>\<open>annual\<close> or \<^verbatim>\<open>lifetime\<close> the body is the failure \<^verbatim>\<open>Payment not verified\<close>, and
  for any other plan the failure \<^verbatim>\<open>Invalid plan\<close>.
\<close>

theorem unverified_payment_is_declined:
  assumes "\<not> fst (checkPayment api req) \<or> \<not> spec_paymentSettled api req"
  shows "snd (paymentsLicense api secret s now rnd req) = s
       \<and> fst (paymentsLicense api secret s now rnd req) =
           (400, Failure (if req_plan req = Some ''annual'' \<or> req_plan req = Some ''lifetime''
                          then ''Payment not verified'' else ''Invalid plan''))"
proof -
  have "\<not> fst (checkPayment api req)"
    using assms checkPayment_settled by blast
  then show ?thesis
    by (cases "checkPayment api req") (auto simp add: paymentsLicense_def)
qed

theorem unverified_payment_is_declined_witness:
  "\<not> spec_paymentSettled
        \<lparr> paymentIntents = [''pi_123'' \<mapsto> \<lparr> pi_id = ''pi_123'', pi_status = ''requires_payment_method'',
                                           pi_customer = None, pi_metadata = Map.empty \<rparr>],
          subscriptions = Map.empty, customers = Map.empty \<rparr>
        \<lparr> req_plan = Some ''lifetime'', req_paymentIntentId = Some ''pi_123'', req_subscriptionId = None \<rparr>
   \<and> paymentsLicense
        \<lparr> paymentIntents = [''pi_123'' \<mapsto> \<lparr> pi_id = ''pi_123'', pi_status = ''requires_payment_method'',
                                           pi_customer = None, pi_metadata = Map.empty \<rparr>],
          subscriptions = Map.empty, customers = Map.empty \<rparr>
        ''s3cret'' (newLicenseStore ''s3cret'' 0) 1000 (\<lambda>k. 0)
        \<lparr> req_plan = Some ''lifetime'', req_paymentIntentId = Some ''pi_123'', req_subscriptionId = None \<rparr>
      = ((400, Failure ''Payment not verified''), newLicenseStore ''s3cret'' 0)
   \<and> \<not> fst (checkPayment
        \<lparr> paymentIntents = Map.empty, subscriptions = Map.empty, customers = Map.empty \<rparr>
        \<lparr> req_plan = Some ''annual'', req_paymentIntentId = Some ''pi_123'', req_subscriptionId = None \<rparr>)
   \<and> paymentsLicense
        \<lparr> paymentIntents = Map.empty, subscriptions = Map.empty, customers = Map.empty \<rparr>
        ''s3cret'' (newLicenseStore ''s3cret'' 0) 1000 (\<lambda>k. 0)
        \<lparr> req_plan = Some ''annual'', req_paymentIntentId = Some ''pi_123'', req_subscriptionId = None \<rparr>
      = ((400, Failure ''Payment not verified''), newLicenseStore ''s3cret'' 0)"
proof -
  let ?api = "\<lparr> paymentIntents = [''pi_123'' \<mapsto> \<lparr> pi_id = ''pi_123'', pi_status = ''requires_payment_method'',
                                           pi_customer = None, pi_metadata = Map.empty \<rparr>],
          subscriptions = Map.empty, customers = Map.empty \<rparr>"
  let ?req = "\<lparr> req_plan = Some ''lifetime'', req_paymentIntentId = Some ''pi_123'', req_subscriptionId = None \<rparr>"
  let ?none = "\<lparr> paymentIntents = Map.empty, subscriptions = Map.empty, customers = Map.empty \<rparr>"
  let ?req2 = "\<lparr> req_plan = Some ''annual'', req_paymentIntentId = Some ''pi_123'', req_subscriptionId = None \<rparr>"
  have h1: "\<not> spec_paymentSettled ?api ?req"
    by (simp add: spec_paymentSettled_def)
  have h2: "\<not> fst (checkPayment ?none ?req2)"
    by (simp add: checkPayment_def)
  have d1: "\<not> fst (checkPayment ?api ?req) \<or> \<not> spec_paymentSettled ?api ?req"
    using h1 by simp
  have d2: "\<not> fst (checkPayment ?none ?req2) \<or> \<not> spec_paymentSettled ?none ?req2"
    using h2 by simp
  from unverified_payment_is_declined [OF d1, of "''s3cret''" "newLicenseStore ''s3cret'' 0" 1000 "\<lambda>k. 0"]
    unverified_payment_is_declined [OF d2, of "''s3cret''" "newLicenseStore ''s3cret'' 0" 1000 "\<lambda>k. 0"]
    h1 h2
  show ?thesis
    by (simp add: prod_eq_iff)
qed

section \<open>License verify\<close>

text \<open>
  C7. The verify endpoint never changes the store. For a non-empty input, when the
  input verifies as a license token the answer is 200 with the decoded payload and a
  token freshly signed from it; when it does not, the endpoint looks the input up as a
  key and, if the stored token verifies, answers 200 in the same way; when the key is
  unknown or the stored token does not verify, the answer is 400. The token signed in
  the answer carries the same payload and is issued at the time of the request.
\<close>

theorem verify_resigns_and_leaves_store:
  "snd (licenseVerify decode secret s now licenseKey) = s
   \<and> (licenseKey = Some k \<and> k \<noteq> [] \<and> verifyLicenseString decode secret now k = Inr lic \<longrightarrow>
        fst (licenseVerify decode secret s now licenseKey)
          = (200, LicenseVerified (signLicenseToken secret now lic) lic))
   \<and> (licenseKey = Some k \<and> k \<noteq> [] \<and> verifyLicenseString decode secret now k = Inl e
        \<and> getLicenseByKey s k = Some found
        \<and> verifyLicenseToken secret now (fullToken found) = Inr lic \<longrightarrow>
        fst (licenseVerify decode secret s now licenseKey)
          = (200, LicenseVerified (signLicenseToken secret now lic) lic))
   \<and> (licenseKey = Some k \<and> k \<noteq> [] \<and> verifyLicenseString decode secret now k = Inl e
        \<and> (getLicenseByKey s k = None
             \<or> (getLicenseByKey s k = Some found
                 \<and> verifyLicenseToken secret now (fullToken found) = Inl e')) \<longrightarrow>
        fst (licenseVerify decode secret s now licenseKey) = (400, Failure ''Invalid license key''))
   \<and> claims (signLicenseToken secret now lic) = LicenseClaims lic
   \<and> jwt_iat (signLicenseToken secret now lic) = now div 1000"
proof -
  have frame: "snd (licenseVerify decode secret s now licenseKey) = s"
    by (simp add: licenseVerify_def Let_def split: option.splits sum.splits)
  have direct: "fst (licenseVerify decode secret s now licenseKey)
          = (200, LicenseVerified (signLicenseToken secret now lic) lic)"
    if "licenseKey = Some k" "k \<noteq> []" "verifyLicenseString decode secret now k = Inr lic"
    using that by (simp add: licenseVerify_def)
  have fallback: "fst (licenseVerify decode secret s now licenseKey)
          = (200, LicenseVerified (signLicenseToken secret now lic) lic)"
    if "licenseKey = Some k" "k \<noteq> []" "verifyLicenseString decode secret now k = Inl e"
      "getLicenseByKey s k = Some found" "verifyLicenseToken secret now (fullToken found) = Inr lic"
    using that by (simp add: licenseVerify_def)
  have refused: "fst (licenseVerify decode secret s now licenseKey) = (400, Failure ''Invalid license key'')"
    if "licenseKey = Some k" "k \<noteq> []" "verifyLicenseString decode secret now k = Inl e"
      "getLicenseByKey s k = None
         \<or> (getLicenseByKey s k = Some found
             \<and> verifyLicenseToken secret now (fullToken found) = Inl e')"
    using that by (auto simp add: licenseVerify_def)
  have carried: "claims (signLicenseToken secret now lic) = LicenseClaims lic"
    "jwt_iat (signLicenseToken secret now lic) = now div 1000"
    by (simp_all add: signLicenseToken_def jwt_sign_def)
  show ?thesis
    using frame direct fallback refused carried by blast
qed

theorem verify_resigns_and_leaves_store_witness:
  "verifyLicenseString (\<lambda>str. if str = ''header.payload.signature''
                               then Some (signLicenseToken ''s3cret'' 0 devLifetime) else None)
      ''s3cret'' 5000 ''header.payload.signature'' = Inr devLifetime
   \<and> licenseVerify (\<lambda>str. if str = ''header.payload.signature''
                               then Some (signLicenseToken ''s3cret'' 0 devLifetime) else None)
        ''s3cret'' (newLicenseStore ''s3cret'' 0) 5000 (Some ''header.payload.signature'')
      = ((200, LicenseVerified (signLicenseToken ''s3cret'' 5000 devLifetime) devLifetime),
         newLicenseStore ''s3cret'' 0)
   \<and> verifyLicenseString (\<lambda>str. None) ''s3cret'' 5000 ''PFW-DEV0-LIFE-TIME-TEST'' = Inl JwtMalformed
   \<and> getLicenseByKey (newLicenseStore ''s3cret'' 0) ''PFW-DEV0-LIFE-TIME-TEST''
      = Some \<lparr> fullToken = signLicenseToken ''s3cret'' 0 devLifetime,
               license = devLifetime, metadata = devMetadata \<rparr>
   \<and> licenseVerify (\<lambda>str. None) ''s3cret'' (newLicenseStore ''s3cret'' 0) 5000
        (Some ''PFW-DEV0-LIFE-TIME-TEST'')
      = ((200, LicenseVerified (signLicenseToken ''s3cret'' 5000 devLifetime) devLifetime),
         newLicenseStore ''s3cret'' 0)
   \<and> getLicenseByKey (newLicenseStore ''s3cret'' 0) ''PFW-0000-0000-0000-0000'' = None
   \<and> licenseVerify (\<lambda>str. None) ''s3cret'' (newLicenseStore ''s3cret'' 0) 5000
        (Some ''PFW-0000-0000-0000-0000'')
      = ((400, Failure ''Invalid license key''), newLicenseStore ''s3cret'' 0)"
proof -
  let ?d = "\<lambda>str. if str = ''header.payload.signature''
                               then Some (signLicenseToken ''s3cret'' 0 devLifetime) else None"
  let ?n = "\<lambda>str::string. None::jwt option"
  let ?s = "newLicenseStore ''s3cret'' 0"
  have e: "expiresAt devLifetime = None"
    by (simp add: devLifetime_def)
  have v: "verifyLicenseToken ''s3cret'' 5000 (signLicenseToken ''s3cret'' 0 devLifetime) = Inr devLifetime"
    by (simp add: verify_sign_license e)
  have a: "verifyLicenseString ?d ''s3cret'' 5000 ''header.payload.signature'' = Inr devLifetime"
    by (simp add: verifyLicenseString_def v)
  have b: "verifyLicenseString ?n ''s3cret'' 5000 k = Inl JwtMalformed" for k
    by (simp add: verifyLicenseString_def)
  have c: "getLicenseByKey ?s ''PFW-DEV0-LIFE-TIME-TEST''
      = Some \<lparr> fullToken = signLicenseToken ''s3cret'' 0 devLifetime,
               license = devLifetime, metadata = devMetadata \<rparr>"
    by (rule newLicenseStore_lifetime)
  have d: "getLicenseByKey ?s ''PFW-0000-0000-0000-0000'' = None"
    by (simp add: newLicenseStore_def initializeDevelopmentLicenses_def getLicenseByKey_def)
  note t1 = verify_resigns_and_leaves_store
    [of ?d "''s3cret''" ?s 5000 "Some ''header.payload.signature''" "''header.payload.signature''" devLifetime]
  note t2 = verify_resigns_and_leaves_store
    [of ?n "''s3cret''" ?s 5000 "Some ''PFW-DEV0-LIFE-TIME-TEST''" "''PFW-DEV0-LIFE-TIME-TEST''"
        devLifetime JwtMalformed
        "\<lparr> fullToken = signLicenseToken ''s3cret'' 0 devLifetime, license = devLifetime, metadata = devMetadata \<rparr>"]
  note t3 = verify_resigns_and_leaves_store
    [of ?n "''s3cret''" ?s 5000 "Some ''PFW-0000-0000-0000-0000''" "''PFW-0000-0000-0000-0000''"
        devLifetime JwtMalformed]
  have r1: "licenseVerify ?d ''s3cret'' ?s 5000 (Some ''header.payload.signature'')
      = ((200, LicenseVerified (signLicenseToken ''s3cret'' 5000 devLifetime) devLifetime), ?s)"
    using t1 a by (simp add: prod_eq_iff)
  have r2: "licenseVerify ?n ''s3cret'' ?s 5000 (Some ''PFW-DEV0-LIFE-TIME-TEST'')
      = ((200, LicenseVerified (signLicenseToken ''s3cret'' 5000 devLifetime) devLifetime), ?s)"
    using t2 b c v by (simp add: prod_eq_iff)
  have r3: "licenseVerify ?n ''s3cret'' ?s 5000 (Some ''PFW-0000-0000-0000-0000'')
      = ((400, Failure ''Invalid license key''), ?s)"
    using t3 b d by (simp add: prod_eq_iff)
  show ?thesis
    using a b c d r1 r2 r3 by simp
qed

end
